theory Spec2Isabelle
  imports Main
begin

section \<open>Errors, files and the operating-system calls the package uses\<close>

text \<open>
  The package \<^verbatim>\<open>catobase\<close> (file \<^verbatim>\<open>catostruct.go\<close>) works on named files: category
  listings, the registry \<^verbatim>\<open>.catodb\<close>, subject files and their \<^verbatim>\<open>.copy\<close> snapshots.
  The model keeps a store from path names to nodes and passes it through every
  function; each function returns the store it leaves behind, also when it fails.
  A path names at most one node, a regular file with its bytes or a directory;
  permissions, missing parent directories and failing devices are not part of the store,
  so the calls below fail only for what a node is or is not.

  Errors are values. The first constructors are the errors of the Go libraries the code
  can meet in this model; \<open>Msg\<close> is \<^verbatim>\<open>errors.New\<close>, \<open>Wrap\<close> is
  \<^verbatim>\<open>fmt.Errorf("...: %w", err)\<close>.
\<close>

datatype error =
    ErrNotExist
  | ErrExist
  | ErrIsDir
  | ErrBadFd
  | ErrTooLong
  | Msg string
  | Wrap string error

datatype node = File string | Dir

type_synonym fs = "string \<Rightarrow> node option"

datatype flag = O_RDWR | O_WRONLY | O_APPEND | O_CREATE | O_EXCL | O_TRUNC

definition nl :: char where
  "nl = CHR 0x0A"

definition cr :: char where
  "cr = CHR 0x0D"

text \<open>
  \<^verbatim>\<open>os.Open\<close>: read-only open. It succeeds on a directory as well; only reading from
  the handle fails then. A handle is the path it was opened on.
\<close>

definition os_Open :: "fs \<Rightarrow> string \<Rightarrow> error + string" where
  "os_Open fs name = (case fs name of None \<Rightarrow> Inl ErrNotExist | Some n \<Rightarrow> Inr name)"

text \<open>
  \<^verbatim>\<open>os.OpenFile\<close> for writing, with the flags the code passes. Without
  \<^verbatim>\<open>O_CREATE\<close> a missing file is an error; \<^verbatim>\<open>O_CREATE|O_EXCL\<close> refuses whatever
  exists; a directory cannot be opened for writing; \<^verbatim>\<open>O_TRUNC\<close> empties the file.
\<close>

definition os_OpenFile :: "fs \<Rightarrow> string \<Rightarrow> flag list \<Rightarrow> error + (string \<times> fs)" where
  "os_OpenFile fs name flags =
     (case fs name of
        None \<Rightarrow>
          if O_CREATE \<in> set flags then Inr (name, fs(name \<mapsto> File [])) else Inl ErrNotExist
      | Some Dir \<Rightarrow>
          if O_CREATE \<in> set flags \<and> O_EXCL \<in> set flags then Inl ErrExist else Inl ErrIsDir
      | Some (File c) \<Rightarrow>
          if O_CREATE \<in> set flags \<and> O_EXCL \<in> set flags then Inl ErrExist
          else if O_TRUNC \<in> set flags then Inr (name, fs(name \<mapsto> File []))
          else Inr (name, fs))"

text \<open>\<^verbatim>\<open>os.Create\<close> is \<^verbatim>\<open>OpenFile(name, O_RDWR|O_CREATE|O_TRUNC, 0666)\<close>.\<close>

definition os_Create :: "fs \<Rightarrow> string \<Rightarrow> error + (string \<times> fs)" where
  "os_Create fs name = os_OpenFile fs name [O_RDWR, O_CREATE, O_TRUNC]"

text \<open>
  \<^verbatim>\<open>f.WriteString\<close>. Every handle the code writes to is either opened with
  \<^verbatim>\<open>O_APPEND\<close> or was just created or truncated and is written front to back, so a
  write always lands at the end of the file.
\<close>

definition WriteString :: "fs \<Rightarrow> string \<Rightarrow> string \<Rightarrow> error + fs" where
  "WriteString fs f s =
     (case fs f of
        Some (File c) \<Rightarrow> Inr (fs(f \<mapsto> File (c @ s)))
      | Some Dir \<Rightarrow> Inl ErrBadFd
      | None \<Rightarrow> Inl ErrBadFd)"

text \<open>Reading a handle to its end, as \<^verbatim>\<open>io.Copy\<close> and the scanner do.\<close>

definition read_all :: "fs \<Rightarrow> string \<Rightarrow> error + string" where
  "read_all fs f =
     (case fs f of
        Some (File c) \<Rightarrow> Inr c
      | Some Dir \<Rightarrow> Inl ErrIsDir
      | None \<Rightarrow> Inl ErrBadFd)"

definition io_Copy :: "fs \<Rightarrow> string \<Rightarrow> string \<Rightarrow> error + fs" where
  "io_Copy fs dst src =
     (case read_all fs src of
        Inl err \<Rightarrow> Inl err
      | Inr c \<Rightarrow> WriteString fs dst c)"

section \<open>Splitting strings and scanning lines\<close>

text \<open>
  \<^verbatim>\<open>strings.Split(s, sep)\<close> for a separator of one byte: the pieces between the
  separators, always at least one piece (the empty string gives one empty piece).
\<close>

fun Split :: "string \<Rightarrow> char \<Rightarrow> string list" where
  "Split [] sep = [[]]"
| "Split (c # cs) sep =
     (if c = sep then [] # Split cs sep
      else (case Split cs sep of [] \<Rightarrow> [[c]] | p # ps \<Rightarrow> (c # p) # ps))"

text \<open>
  \<^verbatim>\<open>bufio.Scanner\<close> with its default split function \<^verbatim>\<open>ScanLines\<close> and its default
  buffer: the input is cut at every newline, a last piece without newline is a line
  unless it is empty, one trailing carriage return is dropped from each line, and a
  piece of \<^verbatim>\<open>MaxScanTokenSize\<close> bytes or more stops the scan with
  \<^verbatim>\<open>ErrTooLong\<close>, after the lines before it were delivered.
\<close>

definition MaxScanTokenSize :: nat where
  "MaxScanTokenSize = 65536"

definition dropCR :: "string \<Rightarrow> string" where
  "dropCR s = (if s \<noteq> [] \<and> last s = cr then butlast s else s)"

definition raw_lines :: "string \<Rightarrow> string list" where
  "raw_lines c = (let segs = Split c nl in if last segs = [] then butlast segs else segs)"

definition scan_content :: "string \<Rightarrow> string list \<times> error option" where
  "scan_content c =
     (let segs = raw_lines c;
          ok = takeWhile (\<lambda>s. length s < MaxScanTokenSize) segs
      in (map dropCR ok, if length ok < length segs then Some ErrTooLong else None))"

definition Scanner :: "fs \<Rightarrow> string \<Rightarrow> string list \<times> error option" where
  "Scanner fs f =
     (case read_all fs f of
        Inl err \<Rightarrow> ([], Some err)
      | Inr c \<Rightarrow> scan_content c)"

section \<open>Record formatter\<close>

text \<open>
  The loop of \<^verbatim>\<open>format\<close> that builds \<^verbatim>\<open>cat\<close>: \<open>n\<close> is \<^verbatim>\<open>len(categories)\<close>,
  \<open>index\<close> the position of the next element.
\<close>

fun cat_loop :: "nat \<Rightarrow> nat \<Rightarrow> string list \<Rightarrow> string \<Rightarrow> string" where
  "cat_loop n index [] cat = cat"
| "cat_loop n index (category # rest) cat =
     cat_loop n (index + 1) rest
       (if index + 1 < n then (cat @ category) @ '','' else cat @ category)"

text \<open>
  \<open>now\<close> stands for \<^verbatim>\<open>time.Now().Format(time.RFC3339)\<close>, the text of the instant at
  which \<^verbatim>\<open>format\<close> runs.
\<close>

definition format :: "string \<Rightarrow> string list \<Rightarrow> string \<Rightarrow> string \<Rightarrow> string" where
  "format path categories separator now =
     (let separator = (if separator = [] then ''|'' else separator);
          cat = cat_loop (length categories) 0 categories []
      in path @ separator @ cat @ separator @ now)"

text \<open>The spec's words for the middle field: the categories joined with a comma.\<close>

fun comma_join :: "string list \<Rightarrow> string" where
  "comma_join [] = []"
| "comma_join [c] = c"
| "comma_join (c # d # cs) = c @ '','' @ comma_join (d # cs)"

section \<open>Category list store\<close>

text \<open>The text of a listing: every label on a line of its own, in order.\<close>

definition listing_text :: "string list \<Rightarrow> string" where
  "listing_text ls = concat (map (\<lambda>l. l @ [nl]) ls)"

text \<open>The write loops of \<^verbatim>\<open>CreateCategory\<close> and \<^verbatim>\<open>DeleteCategory\<close>.\<close>

fun write_each :: "fs \<Rightarrow> string \<Rightarrow> string list \<Rightarrow> error option \<times> fs" where
  "write_each fs f [] = (None, fs)"
| "write_each fs f (category # rest) =
     (case WriteString fs f (category @ [nl]) of
        Inl err \<Rightarrow> (Some err, fs)
      | Inr fs' \<Rightarrow> write_each fs' f rest)"

definition CreateCategory :: "fs \<Rightarrow> string list \<Rightarrow> string \<Rightarrow> (error + bool) \<times> fs" where
  "CreateCategory fs categories fileName =
     (case os_OpenFile fs fileName [O_CREATE, O_EXCL, O_WRONLY] of
        Inl err \<Rightarrow>
          if err = ErrExist then (Inl (Msg ''file already exists''), fs) else (Inl err, fs)
      | Inr (f, fs1) \<Rightarrow>
          (case write_each fs1 f categories of
             (Some err, fs2) \<Rightarrow> (Inl err, fs2)
           | (None, fs2) \<Rightarrow> (Inr True, fs2)))"

definition checkFileExists :: "fs \<Rightarrow> string \<Rightarrow> error + string" where
  "checkFileExists fs filename =
     (case os_Open fs filename of
        Inl err \<Rightarrow> if err = ErrNotExist then Inl (Msg ''file does not exist'') else Inl err
      | Inr file \<Rightarrow> Inr file)"


definition readFile :: "fs \<Rightarrow> string \<Rightarrow> error + string list" where
  "readFile fs fileName =
     (case os_Open fs fileName of
        Inl err \<Rightarrow> Inl err
      | Inr file \<Rightarrow>
          (case Scanner fs file of
             (lines, Some err) \<Rightarrow> Inl err
           | (lines, None) \<Rightarrow> Inr lines))"

section \<open>Registration workflow\<close>

text \<open>
  \<^verbatim>\<open>registerFile\<close>. The optional snapshot is the block under \<^verbatim>\<open>if copy\<close>; it gives
  back the error it returns with, if any, and the store it leaves.
\<close>

definition make_copy :: "fs \<Rightarrow> string \<Rightarrow> string \<Rightarrow> error option \<times> fs" where
  "make_copy fs fileName file =
     (let destinationFile = fileName @ ''.copy'' in
      case os_Create fs destinationFile of
        Inl err \<Rightarrow> (Some (Wrap ''failed to create copy of file'' err), fs)
      | Inr (dst, fs1) \<Rightarrow>
          (case io_Copy fs1 dst file of
             Inl err \<Rightarrow> (Some (Wrap ''failed to copy file'' err), fs1)
           | Inr fs2 \<Rightarrow> (None, fs2)))"

definition registerFile ::
  "fs \<Rightarrow> string \<Rightarrow> string list \<Rightarrow> bool \<Rightarrow> string \<Rightarrow> (error + bool) \<times> fs" where
  "registerFile fs fileName categories copy now =
     (case checkFileExists fs fileName of
        Inl err \<Rightarrow> (Inl err, fs)
      | Inr file \<Rightarrow>
          let formatted = format fileName categories [] now in
          (case os_OpenFile fs ''.catodb'' [O_APPEND, O_WRONLY] of
             Inl err \<Rightarrow> (Inl (Wrap ''failed to open .catodb for writing'' err), fs)
           | Inr (db, fs0) \<Rightarrow>
               (case (if copy then make_copy fs0 fileName file else (None, fs0)) of
                  (Some err, fs2) \<Rightarrow> (Inl err, fs2)
                | (None, fs2) \<Rightarrow>
                    (case WriteString fs2 db (formatted @ [nl]) of
                       Inl err \<Rightarrow> (Inl (Wrap ''failed to write to .catodb'' err), fs2)
                     | Inr fs3 \<Rightarrow> (Inr True, fs3)))))"








section \<open>Query engine\<close>

text \<open>
  \<^verbatim>\<open>containsAll\<close>: the first loop fills \<^verbatim>\<open>setMap\<close> from \<^verbatim>\<open>set\<close> (here \<open>xs\<close>), the
  second looks every element of \<^verbatim>\<open>subset\<close> (here \<open>ys\<close>) up in it.
\<close>

fun fill_setMap :: "string list \<Rightarrow> (string \<rightharpoonup> unit) \<Rightarrow> (string \<rightharpoonup> unit)" where
  "fill_setMap [] setMap = setMap"
| "fill_setMap (s # rest) setMap = fill_setMap rest (setMap(s \<mapsto> ()))"

fun all_present :: "(string \<rightharpoonup> unit) \<Rightarrow> string list \<Rightarrow> bool" where
  "all_present setMap [] = True"
| "all_present setMap (s # rest) =
     (case setMap s of None \<Rightarrow> False | Some ok \<Rightarrow> all_present setMap rest)"

definition containsAll :: "string list \<Rightarrow> string list \<Rightarrow> bool" where
  "containsAll xs ys = all_present (fill_setMap xs Map.empty) ys"

text \<open>The body of the scanning loop of \<^verbatim>\<open>get\<close>, over the lines the scanner delivers.\<close>

fun get_loop :: "(string \<Rightarrow> bool) \<Rightarrow> string list \<Rightarrow> string list \<Rightarrow> string list \<Rightarrow> string list" where
  "get_loop re categories [] matches = matches"
| "get_loop re categories (line # rest) matches =
     (let parts = Split line (CHR ''|'') in
      if length parts < 3 then get_loop re categories rest matches
      else
        let path = parts ! 0;
            fileCategories = Split (parts ! 1) (CHR '','')
        in if re path \<and> containsAll fileCategories categories
           then get_loop re categories rest (matches @ [path])
           else get_loop re categories rest matches)"

definition get ::
  "(string \<Rightarrow> error + (string \<Rightarrow> bool)) \<Rightarrow> fs \<Rightarrow> string \<Rightarrow> string list \<Rightarrow> error + string list" where
  "get Compile fs regex categories =
     (case checkFileExists fs ''.catodb'' of
        Inl err \<Rightarrow> Inl err
      | Inr db \<Rightarrow>
          (case Compile regex of
             Inl err \<Rightarrow> Inl err
           | Inr re \<Rightarrow>
               (case Scanner fs db of
                  (scanned, scan_err) \<Rightarrow>
                    let matches = get_loop re categories scanned [] in
                    (case scan_err of
                       Some err \<Rightarrow> Inl err
                     | None \<Rightarrow> Inr matches))))"

text \<open>
  The spec's words for the records a query selects: at least three fields between bars,
  the first matched by the pattern, and every required category among the pieces of the
  second.
\<close>

definition selected :: "(string \<Rightarrow> bool) \<Rightarrow> string list \<Rightarrow> string \<Rightarrow> bool" where
  "selected re required line =
     (3 \<le> length (Split line (CHR ''|''))
      \<and> re (Split line (CHR ''|'') ! 0)
      \<and> set required \<subseteq> set (Split (Split line (CHR ''|'') ! 1) (CHR '','')))"

section \<open>Properties of the record formatter\<close>

lemma cat_loop_join:
  "n = index + length cs \<Longrightarrow> cat_loop n index cs cat = cat @ comma_join cs"
proof (induction cs arbitrary: index cat rule: comma_join.induct)
  case 1
  then show ?case by simp
next
  case (2 c)
  then show ?case by simp
next
  case (3 c d cs)
  have "cat_loop n (index + 1) (d # cs) ((cat @ c) @ '','') = ((cat @ c) @ '','') @ comma_join (d # cs)"
    using "3.prems" by (intro "3.IH") simp
  with "3.prems" show ?case by simp
qed

lemma format_default: "format path categories [] now = path @ ''|'' @ comma_join categories @ ''|'' @ now"
  by (simp add: format_def cat_loop_join)

text \<open>
  Claim C6. With an empty separator \<^verbatim>\<open>format\<close> uses \<^verbatim>\<open>|\<close>: the line is the path, a
  bar, the categories joined with commas, a bar, and the text of the instant, with
  nothing after it (so no trailing separator and no newline of its own). With no
  category the middle field is empty.
\<close>

theorem format_shape:
  "format path categories [] now = path @ ''|'' @ comma_join categories @ ''|'' @ now
   \<and> format path [] [] now = path @ ''||'' @ now"
  by (simp add: format_default)

section \<open>Splitting and membership\<close>

text \<open>
  \<^verbatim>\<open>strings.Split\<close> distributes over a separator, leaves a string without separator
  whole, and undoes the comma join of categories that hold no comma. \<^verbatim>\<open>containsAll\<close>
  is set inclusion.
\<close>

lemma Split_not_Nil: "Split s sep \<noteq> []"
  by (induction s) (auto split: list.splits)

lemma Split_append: "Split (a @ sep # b) sep = Split a sep @ Split b sep"
  by (induction a) (auto split: list.splits simp: Split_not_Nil)

lemma Split_none: "sep \<notin> set s \<Longrightarrow> Split s sep = [s]"
  by (induction s) auto

lemma Split_comma_join:
  "cs \<noteq> [] \<Longrightarrow> \<forall>c \<in> set cs. CHR '','' \<notin> set c \<Longrightarrow> Split (comma_join cs) (CHR '','') = cs"
proof (induction cs rule: comma_join.induct)
  case 1
  then show ?case by simp
next
  case (2 c)
  then show ?case by (simp add: Split_none)
next
  case (3 c d cs)
  then show ?case by (simp add: Split_append Split_none)
qed

lemma set_comma_join: "set (comma_join cs) \<subseteq> \<Union> (set ` set cs) \<union> {CHR '',''}"
  by (induction cs rule: comma_join.induct) auto

lemma bar_comma_join: "\<forall>c \<in> set cs. CHR ''|'' \<notin> set c \<Longrightarrow> CHR ''|'' \<notin> set (comma_join cs)"
  using set_comma_join [of cs] by auto

lemma fill_setMap_dom: "dom (fill_setMap xs m) = dom m \<union> set xs"
  by (induction xs arbitrary: m) auto

lemma all_present_iff: "all_present m ys \<longleftrightarrow> set ys \<subseteq> dom m"
  by (induction ys) (auto split: option.splits)

lemma containsAll_iff: "containsAll xs ys \<longleftrightarrow> set ys \<subseteq> set xs"
  by (simp add: containsAll_def all_present_iff fill_setMap_dom)

section \<open>Round trip of a record through the query's splitting\<close>

text \<open>
  Claim C2, as amended. The claim speaks of every path and every sequence of categories;
  the format has no escaping, so it holds for the paths without a bar and the non-empty
  sequences of categories without bar or comma. For these, the line that \<^verbatim>\<open>format\<close>
  gives with the default separator splits on the bar into at least three fields, the
  first is the path, and the second splits on the comma into the categories themselves,
  in order, hence into the same set.
\<close>

theorem format_roundtrip:
  assumes "CHR ''|'' \<notin> set path" and "categories \<noteq> []"
    and "\<forall>c \<in> set categories. CHR ''|'' \<notin> set c \<and> CHR '','' \<notin> set c"
  shows "3 \<le> length (Split (format path categories [] now) (CHR ''|''))
       \<and> Split (format path categories [] now) (CHR ''|'') ! 0 = path
       \<and> Split (Split (format path categories [] now) (CHR ''|'') ! 1) (CHR '','') = categories
       \<and> set (Split (Split (format path categories [] now) (CHR ''|'') ! 1) (CHR '','')) = set categories"
proof -
  have "Split (format path categories [] now) (CHR ''|'')
        = path # comma_join categories # Split now (CHR ''|'')"
    using assms by (simp add: format_default Split_append Split_none bar_comma_join)
  moreover have "1 \<le> length (Split now (CHR ''|''))"
    using Split_not_Nil [of now] by (cases "Split now (CHR ''|'')") auto
  ultimately show ?thesis using assms by (simp add: Split_comma_join)
qed

theorem format_roundtrip_witness:
  "CHR ''|'' \<notin> set ''/p/f'' \<and> [''Books'', ''Movies''] \<noteq> []
   \<and> CHR ''|'' \<notin> set ''Books'' \<and> CHR '','' \<notin> set ''Books''
   \<and> CHR ''|'' \<notin> set ''Movies'' \<and> CHR '','' \<notin> set ''Movies''
   \<and> 3 \<le> length (Split (format ''/p/f'' [''Books'', ''Movies''] [] ''2023-07-01T00:00:00Z'') (CHR ''|''))
   \<and> Split (format ''/p/f'' [''Books'', ''Movies''] [] ''2023-07-01T00:00:00Z'') (CHR ''|'') ! 0 = ''/p/f''
   \<and> Split (Split (format ''/p/f'' [''Books'', ''Movies''] [] ''2023-07-01T00:00:00Z'') (CHR ''|'') ! 1)
         (CHR '','') = [''Books'', ''Movies'']"
  using format_roundtrip [of "''/p/f''" "[''Books'', ''Movies'']" "''2023-07-01T00:00:00Z''"]
  by simp

text \<open>
  Claim C2 as stated fails: a bar in the path cuts the path short; a comma inside a
  category gives two categories that were never given; and with no category at all the
  empty middle field is read back as one empty category.
\<close>

theorem format_roundtrip_counterexample:
  "Split (format ''a|b'' [''c''] [] ''2023-07-01T00:00:00Z'') (CHR ''|'') ! 0 \<noteq> ''a|b''
   \<and> set (Split (Split (format ''p'' [''x,y''] [] ''2023-07-01T00:00:00Z'') (CHR ''|'') ! 1) (CHR '',''))
       \<noteq> set [''x,y'']
   \<and> set (Split (Split (format ''p'' [] [] ''2023-07-01T00:00:00Z'') (CHR ''|'') ! 1) (CHR '',''))
       \<noteq> set []"
  by (simp add: format_def)

section \<open>Scanning a listing\<close>

text \<open>
  The scanner reads back the lines of a listing text when no line holds a newline, ends
  in a carriage return, or reaches the buffer limit. Its only own error is
  \<^verbatim>\<open>ErrTooLong\<close>; it has none when every piece is below the limit, and a first piece
  at the limit stops it at once.
\<close>

lemma Split_listing_text:
  "\<forall>l \<in> set ls. nl \<notin> set l \<Longrightarrow> Split (listing_text ls) nl = ls @ [[]]"
  by (induction ls) (simp_all add: listing_text_def Split_append Split_none)

lemma raw_lines_listing_text:
  "\<forall>l \<in> set ls. nl \<notin> set l \<Longrightarrow> raw_lines (listing_text ls) = ls"
  by (simp add: raw_lines_def Split_listing_text)

lemma scan_content_listing_text:
  assumes "\<forall>l \<in> set ls. nl \<notin> set l \<and> length l < MaxScanTokenSize \<and> (l \<noteq> [] \<longrightarrow> last l \<noteq> cr)"
  shows "scan_content (listing_text ls) = (ls, None)"
proof -
  have r: "raw_lines (listing_text ls) = ls"
    using assms by (simp add: raw_lines_listing_text)
  have t: "takeWhile (\<lambda>s. length s < MaxScanTokenSize) ls = ls"
    using assms by (simp add: takeWhile_eq_all_conv)
  have d: "map dropCR ls = ls"
    using assms by (induction ls) (auto simp: dropCR_def)
  show ?thesis by (simp add: scan_content_def r t d)
qed

lemma scan_content_too_long:
  "scan_content c = (ls, Some err) \<Longrightarrow> err = ErrTooLong"
  by (auto simp: scan_content_def Let_def split: if_splits)

lemma scan_content_short:
  "\<forall>s \<in> set (raw_lines c). length s < MaxScanTokenSize \<Longrightarrow>
     scan_content c = (map dropCR (raw_lines c), None)"
  by (simp add: scan_content_def Let_def takeWhile_eq_all_conv [THEN iffD2])

lemma scan_content_long_line:
  assumes "nl \<notin> set s" and "MaxScanTokenSize \<le> length s"
  shows "scan_content s = ([], Some ErrTooLong)"
proof -
  from assms(2) have "s \<noteq> []" by (auto simp: MaxScanTokenSize_def)
  with assms(1) have "raw_lines s = [s]" by (simp add: raw_lines_def Split_none)
  with assms(2) show ?thesis by (simp add: scan_content_def)
qed

text \<open>
  A piece at or above the limit anywhere makes the scan end with \<^verbatim>\<open>ErrTooLong\<close>; a
  content of 65536 bytes without newline is one such piece.
\<close>

lemma takeWhile_short: "length (takeWhile P xs) < length xs \<longleftrightarrow> (\<exists>x \<in> set xs. \<not> P x)"
  by (induction xs) auto

lemma scan_content_long:
  "\<exists>s \<in> set (raw_lines c). MaxScanTokenSize \<le> length s \<Longrightarrow> snd (scan_content c) = Some ErrTooLong"
  by (simp add: scan_content_def Let_def takeWhile_short not_less)

lemma long_line_raw:
  "raw_lines (replicate 65536 (CHR ''a'')) = [replicate 65536 (CHR ''a'')]"
  by (simp add: raw_lines_def Split_none nl_def)

lemma long_line_scan:
  "scan_content (replicate 65536 (CHR ''a'')) = ([], Some ErrTooLong)"
  by (rule scan_content_long_line) (simp_all add: nl_def MaxScanTokenSize_def)

section \<open>Category list store: create and delete\<close>

text \<open>
  Writing to a regular file appends each label and a newline. A new listing holds the
  listing text of its labels, and reading it gives the labels back when they are lines.
\<close>

lemma write_each_file:
  "fs f = Some (File c) \<Longrightarrow> write_each fs f ls = (None, fs(f \<mapsto> File (c @ listing_text ls)))"
proof (induction ls arbitrary: fs c)
  case Nil
  then show ?case by (simp add: listing_text_def fun_upd_idem)
next
  case (Cons l ls)
  let ?fs1 = "fs(f \<mapsto> File (c @ l @ [nl]))"
  have "write_each fs f (l # ls) = write_each ?fs1 f ls"
    using Cons.prems by (simp add: WriteString_def)
  also have "\<dots> = (None, ?fs1(f \<mapsto> File ((c @ l @ [nl]) @ listing_text ls)))"
    by (rule Cons.IH) simp
  also have "\<dots> = (None, fs(f \<mapsto> File (c @ listing_text (l # ls))))"
    by (simp add: listing_text_def)
  finally show ?case .
qed

lemma CreateCategory_exists:
  "fs fileName = Some n \<Longrightarrow> CreateCategory fs categories fileName = (Inl (Msg ''file already exists''), fs)"
  by (cases n) (simp_all add: CreateCategory_def os_OpenFile_def)

lemma CreateCategory_new:
  assumes "fs fileName = None"
  shows "CreateCategory fs categories fileName
           = (Inr True, fs(fileName \<mapsto> File (listing_text categories)))"
proof -
  have "write_each (fs(fileName \<mapsto> File [])) fileName categories
        = (None, (fs(fileName \<mapsto> File []))(fileName \<mapsto> File ([] @ listing_text categories)))"
    by (rule write_each_file) simp
  with assms show ?thesis by (simp add: CreateCategory_def os_OpenFile_def)
qed

lemma readFile_created:
  assumes "fs fileName = None"
    and "\<forall>l \<in> set categories. nl \<notin> set l \<and> length l < MaxScanTokenSize \<and> (l \<noteq> [] \<longrightarrow> last l \<noteq> cr)"
  shows "readFile (snd (CreateCategory fs categories fileName)) fileName = Inr categories"
  using scan_content_listing_text [OF assms(2)] CreateCategory_new [of fs fileName categories] assms(1)
  by (simp add: readFile_def os_Open_def Scanner_def read_all_def)

text \<open>
  Claim C4. Where no resource exists at the path, \<^verbatim>\<open>CreateCategory\<close> succeeds and the
  resource then holds exactly the given labels, each followed by a newline, in the order
  given. A second call at the same path, with whatever labels, fails with
  ``file already exists'' and leaves the store, so the content written first, as it was.
\<close>

theorem CreateCategory_fresh:
  assumes "fs fileName = None"
  shows "CreateCategory fs categories fileName
           = (Inr True, fs(fileName \<mapsto> File (listing_text categories)))
       \<and> CreateCategory (fs(fileName \<mapsto> File (listing_text categories))) categories' fileName
           = (Inl (Msg ''file already exists''), fs(fileName \<mapsto> File (listing_text categories)))"
  using assms CreateCategory_new [of fs fileName categories]
    CreateCategory_exists [of "fs(fileName \<mapsto> File (listing_text categories))" fileName
      "File (listing_text categories)" categories']
  by simp

theorem CreateCategory_fresh_witness:
  "Map.empty ''test_create_category.txt'' = None
   \<and> CreateCategory Map.empty [''Books'', ''Movies''] ''test_create_category.txt''
       = (Inr True, [''test_create_category.txt'' \<mapsto> File (''Books'' @ [nl] @ ''Movies'' @ [nl])])
   \<and> CreateCategory [''test_create_category.txt'' \<mapsto> File (''Books'' @ [nl] @ ''Movies'' @ [nl])]
         [''Music''] ''test_create_category.txt''
       = (Inl (Msg ''file already exists''),
          [''test_create_category.txt'' \<mapsto> File (''Books'' @ [nl] @ ''Movies'' @ [nl])])"
  using CreateCategory_fresh [of Map.empty "''test_create_category.txt''" "[''Books'', ''Movies'']" "[''Music'']"]
  by (simp add: listing_text_def)





section \<open>Registration of one file\<close>

text \<open>
  The snapshot is written to the subject's path followed by \<^verbatim>\<open>.copy\<close>, which is never
  the registry's path, and the snapshot step touches no other path.
\<close>

lemma copy_not_registry: "fileName @ ''.copy'' \<noteq> ''.catodb''"
proof
  assume "fileName @ ''.copy'' = ''.catodb''"
  then have "last (fileName @ ''.copy'') = last ''.catodb''" by simp
  then show False by simp
qed

lemma make_copy_frame:
  "make_copy fs fileName file = (r, fs') \<Longrightarrow> p \<noteq> fileName @ ''.copy'' \<Longrightarrow> fs' p = fs p"
  by (auto simp: make_copy_def Let_def os_Create_def os_OpenFile_def io_Copy_def read_all_def
      WriteString_def split: option.splits node.splits sum.splits if_splits)

text \<open>
  A registration that succeeds reports \<^verbatim>\<open>true\<close>; it found a registry, appended to it exactly the formatted
  record and a newline, made the snapshot of the subject's content when asked to, and
  touched nothing else.
\<close>

lemma registerFile_success:
  assumes "registerFile fs fileName categories copy now = (Inr b, fs')"
  shows "\<exists>reg. fs ''.catodb'' = Some (File reg)
           \<and> fs' ''.catodb'' = Some (File (reg @ format fileName categories [] now @ [nl]))
           \<and> (copy \<longrightarrow> (\<exists>c. fs fileName = Some (File c) \<and> fs' (fileName @ ''.copy'') = Some (File c)))
           \<and> (\<forall>p. p \<noteq> ''.catodb'' \<and> p \<noteq> fileName @ ''.copy'' \<longrightarrow> fs' p = fs p)"
  using assms copy_not_registry [of fileName]
  by (auto simp: registerFile_def checkFileExists_def os_Open_def os_OpenFile_def make_copy_def
        Let_def os_Create_def io_Copy_def read_all_def WriteString_def
        split: option.splits node.splits sum.splits if_splits prod.splits)

lemma registerFile_Inr: "registerFile fs fileName categories copy now = (Inr b, fs') \<Longrightarrow> b"
  by (auto simp: registerFile_def Let_def split: sum.splits prod.splits option.splits if_splits)

text \<open>
  Claim C3. When nothing exists at the subject's path, \<^verbatim>\<open>registerFile\<close> fails with
  ``file does not exist'' and leaves the store as it was. With the subject present, a
  registry that is missing or is a directory gives the error of the failed opening and
  leaves the store as it was. With subject and registry present and the snapshot asked
  for, a snapshot path that cannot be created gives ``failed to create copy of file''
  with the store as it was, and a subject that cannot be read gives ``failed to copy
  file'' with only the emptied snapshot added. Whenever \<^verbatim>\<open>registerFile\<close> returns an
  error, the registry is what it was before the call: no record line was appended. And
  whenever it reports success, the subject exists, the registry holds exactly one more
  line, the formatted record, and the snapshot that was asked for holds the subject's
  content: a record is appended only when every step before it took effect.
\<close>

theorem registerFile_no_partial_append:
  "(fs fileName = None \<longrightarrow>
      registerFile fs fileName categories copy now = (Inl (Msg ''file does not exist''), fs))
   \<and> (fs fileName \<noteq> None \<and> fs ''.catodb'' = None \<longrightarrow>
      registerFile fs fileName categories copy now
        = (Inl (Wrap ''failed to open .catodb for writing'' ErrNotExist), fs))
   \<and> (fs fileName \<noteq> None \<and> fs ''.catodb'' = Some Dir \<longrightarrow>
      registerFile fs fileName categories copy now
        = (Inl (Wrap ''failed to open .catodb for writing'' ErrIsDir), fs))
   \<and> (fs fileName \<noteq> None \<and> fs ''.catodb'' = Some (File reg) \<and> copy
        \<and> fs (fileName @ ''.copy'') = Some Dir \<longrightarrow>
      registerFile fs fileName categories copy now
        = (Inl (Wrap ''failed to create copy of file'' ErrIsDir), fs))
   \<and> (fs fileName = Some Dir \<and> fs ''.catodb'' = Some (File reg) \<and> copy
        \<and> fs (fileName @ ''.copy'') \<noteq> Some Dir \<longrightarrow>
      registerFile fs fileName categories copy now
        = (Inl (Wrap ''failed to copy file'' ErrIsDir), fs(fileName @ ''.copy'' \<mapsto> File [])))
   \<and> (registerFile fs fileName categories copy now = (Inl e, fs') \<longrightarrow>
        fs' ''.catodb'' = fs ''.catodb'')
   \<and> (registerFile fs fileName categories copy now = (Inr b, fs') \<longrightarrow>
        b \<and> fs fileName \<noteq> None
        \<and> (\<exists>reg. fs ''.catodb'' = Some (File reg)
              \<and> fs' ''.catodb'' = Some (File (reg @ format fileName categories [] now @ [nl])))
        \<and> (copy \<longrightarrow> (\<exists>c. fs fileName = Some (File c) \<and> fs' (fileName @ ''.copy'') = Some (File c))))"
proof -
  have a: "fs fileName = None \<Longrightarrow>
      registerFile fs fileName categories copy now = (Inl (Msg ''file does not exist''), fs)"
    by (simp add: registerFile_def checkFileExists_def os_Open_def)
  have r1: "fs fileName \<noteq> None \<Longrightarrow> fs ''.catodb'' = None \<Longrightarrow>
      registerFile fs fileName categories copy now
        = (Inl (Wrap ''failed to open .catodb for writing'' ErrNotExist), fs)"
    by (auto simp: registerFile_def checkFileExists_def os_Open_def os_OpenFile_def)
  have r2: "fs fileName \<noteq> None \<Longrightarrow> fs ''.catodb'' = Some Dir \<Longrightarrow>
      registerFile fs fileName categories copy now
        = (Inl (Wrap ''failed to open .catodb for writing'' ErrIsDir), fs)"
    by (auto simp: registerFile_def checkFileExists_def os_Open_def os_OpenFile_def)
  have c1: "fs fileName \<noteq> None \<Longrightarrow> fs ''.catodb'' = Some (File reg) \<Longrightarrow> copy \<Longrightarrow>
      fs (fileName @ ''.copy'') = Some Dir \<Longrightarrow>
      registerFile fs fileName categories copy now
        = (Inl (Wrap ''failed to create copy of file'' ErrIsDir), fs)"
    by (auto simp: registerFile_def checkFileExists_def os_Open_def os_OpenFile_def make_copy_def
        os_Create_def Let_def)
  have c2: "fs fileName = Some Dir \<Longrightarrow> fs ''.catodb'' = Some (File reg) \<Longrightarrow> copy \<Longrightarrow>
      fs (fileName @ ''.copy'') \<noteq> Some Dir \<Longrightarrow>
      registerFile fs fileName categories copy now
        = (Inl (Wrap ''failed to copy file'' ErrIsDir), fs(fileName @ ''.copy'' \<mapsto> File []))"
    by (auto simp: registerFile_def checkFileExists_def os_Open_def os_OpenFile_def make_copy_def
        os_Create_def io_Copy_def read_all_def Let_def split: option.splits node.splits)
  have b: "fs' ''.catodb'' = fs ''.catodb''"
    if "registerFile fs fileName categories copy now = (Inl e, fs')"
  proof (cases "copy")
    case False
    with that show ?thesis
      by (auto simp: registerFile_def checkFileExists_def os_Open_def os_OpenFile_def
        WriteString_def split: option.splits node.splits sum.splits if_splits)
  next
    case True
    obtain r fs2 where m: "make_copy fs fileName fileName = (r, fs2)"
      by (cases "make_copy fs fileName fileName")
    have "fs2 ''.catodb'' = fs ''.catodb''"
      using make_copy_frame [OF m, of "''.catodb''"] copy_not_registry [of fileName] by metis
    with that True m show ?thesis
      by (auto simp: registerFile_def checkFileExists_def os_Open_def os_OpenFile_def
        WriteString_def split: option.splits node.splits sum.splits if_splits)
  qed
  have s: "b \<and> fs fileName \<noteq> None
        \<and> (\<exists>reg. fs ''.catodb'' = Some (File reg)
              \<and> fs' ''.catodb'' = Some (File (reg @ format fileName categories [] now @ [nl])))
        \<and> (copy \<longrightarrow> (\<exists>c. fs fileName = Some (File c) \<and> fs' (fileName @ ''.copy'') = Some (File c)))"
    if h: "registerFile fs fileName categories copy now = (Inr b, fs')"
  proof -
    from h have "fs fileName \<noteq> None"
      by (auto simp: registerFile_def checkFileExists_def os_Open_def split: option.splits)
    with registerFile_success [OF h] registerFile_Inr [OF h] show ?thesis by blast
  qed
  from a r1 r2 c1 c2 b s show ?thesis by blast
qed

theorem registerFile_no_partial_append_witness:
  "registerFile [''.catodb'' \<mapsto> File ''x''] ''missing.txt'' [''Books''] True ''2023-07-01T00:00:00Z''
     = (Inl (Msg ''file does not exist''), [''.catodb'' \<mapsto> File ''x''])
   \<and> registerFile [''a.txt'' \<mapsto> File ''Books''] ''a.txt'' [''Books''] True ''2023-07-01T00:00:00Z''
     = (Inl (Wrap ''failed to open .catodb for writing'' ErrNotExist), [''a.txt'' \<mapsto> File ''Books''])
   \<and> registerFile [''a.txt'' \<mapsto> File ''Books'', ''.catodb'' \<mapsto> Dir] ''a.txt'' [''Books''] True
         ''2023-07-01T00:00:00Z''
     = (Inl (Wrap ''failed to open .catodb for writing'' ErrIsDir),
        [''a.txt'' \<mapsto> File ''Books'', ''.catodb'' \<mapsto> Dir])
   \<and> registerFile [''a.txt'' \<mapsto> File ''Books'', ''a.txt.copy'' \<mapsto> Dir, ''.catodb'' \<mapsto> File ''x'']
         ''a.txt'' [''Books''] True ''2023-07-01T00:00:00Z''
     = (Inl (Wrap ''failed to create copy of file'' ErrIsDir),
        [''a.txt'' \<mapsto> File ''Books'', ''a.txt.copy'' \<mapsto> Dir, ''.catodb'' \<mapsto> File ''x''])
   \<and> registerFile [''d'' \<mapsto> Dir, ''.catodb'' \<mapsto> File ''x''] ''d'' [''Books''] True ''2023-07-01T00:00:00Z''
     = (Inl (Wrap ''failed to copy file'' ErrIsDir),
        [''d'' \<mapsto> Dir, ''.catodb'' \<mapsto> File ''x'', ''d.copy'' \<mapsto> File []])
   \<and> [''d'' \<mapsto> Dir, ''.catodb'' \<mapsto> File ''x'', ''d.copy'' \<mapsto> File []] ''.catodb''
     = [''d'' \<mapsto> Dir, ''.catodb'' \<mapsto> File ''x''] ''.catodb''
   \<and> registerFile [''a.txt'' \<mapsto> File ''Books'', ''.catodb'' \<mapsto> File ''x''] ''a.txt'' [''Books''] True
         ''2023-07-01T00:00:00Z''
     = (Inr True,
        [''a.txt'' \<mapsto> File ''Books'', ''a.txt.copy'' \<mapsto> File ''Books'',
         ''.catodb'' \<mapsto> File (''x'' @ ''a.txt|Books|2023-07-01T00:00:00Z'' @ [nl])])
   \<and> [''a.txt'' \<mapsto> File ''Books'', ''a.txt.copy'' \<mapsto> File ''Books'',
         ''.catodb'' \<mapsto> File (''x'' @ ''a.txt|Books|2023-07-01T00:00:00Z'' @ [nl])] ''.catodb''
     = Some (File (''x'' @ format ''a.txt'' [''Books''] [] ''2023-07-01T00:00:00Z'' @ [nl]))"
proof -
  let ?now = "''2023-07-01T00:00:00Z''"
  let ?fsd = "[''d'' \<mapsto> Dir, ''.catodb'' \<mapsto> File ''x'']"
  let ?fsd' = "[''d'' \<mapsto> Dir, ''.catodb'' \<mapsto> File ''x'', ''d.copy'' \<mapsto> File []]"
  let ?fsa = "[''a.txt'' \<mapsto> File ''Books'', ''.catodb'' \<mapsto> File ''x'']"
  let ?fsa' = "[''a.txt'' \<mapsto> File ''Books'', ''a.txt.copy'' \<mapsto> File ''Books'',
         ''.catodb'' \<mapsto> File (''x'' @ ''a.txt|Books|2023-07-01T00:00:00Z'' @ [nl])]"
  have w1: "registerFile [''.catodb'' \<mapsto> File ''x''] ''missing.txt'' [''Books''] True ?now
     = (Inl (Msg ''file does not exist''), [''.catodb'' \<mapsto> File ''x''])"
    using registerFile_no_partial_append [where fs = "[''.catodb'' \<mapsto> File ''x'']"
        and fileName = "''missing.txt''" and categories = "[''Books'']" and copy = True and now = ?now]
    by simp
  have w2: "registerFile [''a.txt'' \<mapsto> File ''Books''] ''a.txt'' [''Books''] True ?now
     = (Inl (Wrap ''failed to open .catodb for writing'' ErrNotExist), [''a.txt'' \<mapsto> File ''Books''])"
    using registerFile_no_partial_append [where fs = "[''a.txt'' \<mapsto> File ''Books'']"
        and fileName = "''a.txt''" and categories = "[''Books'']" and copy = True and now = ?now]
    by simp
  have w3: "registerFile [''a.txt'' \<mapsto> File ''Books'', ''.catodb'' \<mapsto> Dir] ''a.txt'' [''Books''] True ?now
     = (Inl (Wrap ''failed to open .catodb for writing'' ErrIsDir),
        [''a.txt'' \<mapsto> File ''Books'', ''.catodb'' \<mapsto> Dir])"
    using registerFile_no_partial_append [where fs = "[''a.txt'' \<mapsto> File ''Books'', ''.catodb'' \<mapsto> Dir]"
        and fileName = "''a.txt''" and categories = "[''Books'']" and copy = True and now = ?now]
    by simp
  have w4: "registerFile [''a.txt'' \<mapsto> File ''Books'', ''a.txt.copy'' \<mapsto> Dir, ''.catodb'' \<mapsto> File ''x'']
         ''a.txt'' [''Books''] True ?now
     = (Inl (Wrap ''failed to create copy of file'' ErrIsDir),
        [''a.txt'' \<mapsto> File ''Books'', ''a.txt.copy'' \<mapsto> Dir, ''.catodb'' \<mapsto> File ''x''])"
    using registerFile_no_partial_append [where
        fs = "[''a.txt'' \<mapsto> File ''Books'', ''a.txt.copy'' \<mapsto> Dir, ''.catodb'' \<mapsto> File ''x'']"
        and fileName = "''a.txt''" and categories = "[''Books'']" and copy = True and now = ?now
        and reg = "''x''"]
    by simp
  have w5: "registerFile ?fsd ''d'' [''Books''] True ?now
     = (Inl (Wrap ''failed to copy file'' ErrIsDir), ?fsd')"
    using registerFile_no_partial_append [where fs = ?fsd
        and fileName = "''d''" and categories = "[''Books'']" and copy = True and now = ?now
        and reg = "''x''"]
    by simp
  have w6: "?fsd' ''.catodb'' = ?fsd ''.catodb''"
    using w5 registerFile_no_partial_append [where fs = ?fsd
        and fileName = "''d''" and categories = "[''Books'']" and copy = True and now = ?now
        and e = "Wrap ''failed to copy file'' ErrIsDir" and fs' = ?fsd']
    by blast
  have w7: "registerFile ?fsa ''a.txt'' [''Books''] True ?now = (Inr True, ?fsa')"
    by (simp add: registerFile_def checkFileExists_def os_Open_def os_OpenFile_def make_copy_def
        os_Create_def io_Copy_def read_all_def WriteString_def format_def Let_def)
  have w8: "?fsa' ''.catodb'' = Some (File (''x'' @ format ''a.txt'' [''Books''] [] ?now @ [nl]))"
    using w7 registerFile_no_partial_append [where fs = ?fsa
        and fileName = "''a.txt''" and categories = "[''Books'']" and copy = True and now = ?now
        and b = True and fs' = ?fsa']
    by auto
  from w1 w2 w3 w4 w5 w6 w7 w8 show ?thesis by (simp only: simp_thms)
qed

text \<open>
  Claim C10. When the registry does not exist, \<^verbatim>\<open>registerFile\<close> with the snapshot
  switched on fails and the whole store is unchanged: the registry is opened before the
  snapshot is made, so no \<^verbatim>\<open>.copy\<close> file is created or overwritten.
\<close>

theorem registerFile_missing_registry:
  assumes "fs ''.catodb'' = None"
  shows "\<exists>e. registerFile fs fileName categories True now = (Inl e, fs)"
  using assms
  by (auto simp: registerFile_def checkFileExists_def os_Open_def os_OpenFile_def
        split: option.splits)

theorem registerFile_missing_registry_witness:
  "[''a.txt'' \<mapsto> File ''Books''] ''.catodb'' = None
   \<and> registerFile [''a.txt'' \<mapsto> File ''Books''] ''a.txt'' [''Books''] True ''2023-07-01T00:00:00Z''
       = (Inl (Wrap ''failed to open .catodb for writing'' ErrNotExist), [''a.txt'' \<mapsto> File ''Books''])
   \<and> [''a.txt'' \<mapsto> File ''Books''] ''a.txt.copy'' = None"
proof -
  have "fst (registerFile [''a.txt'' \<mapsto> File ''Books''] ''a.txt'' [''Books''] True ''2023-07-01T00:00:00Z'')
       = Inl (Wrap ''failed to open .catodb for writing'' ErrNotExist)"
    by (simp add: registerFile_def checkFileExists_def os_Open_def os_OpenFile_def)
  with registerFile_missing_registry [of "[''a.txt'' \<mapsto> File ''Books'']" "''a.txt''" "[''Books'']"
        "''2023-07-01T00:00:00Z''"]
  show ?thesis by auto
qed

text \<open>
  Claim C8. When the registry does not exist, \<^verbatim>\<open>registerFile\<close> returns an error (the
  subject's ``file does not exist'' if the subject is missing too, the failed opening of
  the registry otherwise) and the registry still does not exist afterwards; \<^verbatim>\<open>get\<close>,
  which only reads, fails with ``file does not exist''.
\<close>

theorem missing_registry_errors:
  assumes "fs ''.catodb'' = None"
  shows "fst (registerFile fs fileName categories copy now)
           = Inl (if fs fileName = None then Msg ''file does not exist''
                  else Wrap ''failed to open .catodb for writing'' ErrNotExist)
       \<and> snd (registerFile fs fileName categories copy now) ''.catodb'' = None
       \<and> get Compile fs regex required = Inl (Msg ''file does not exist'')"
  using assms
  by (auto simp: registerFile_def checkFileExists_def os_Open_def os_OpenFile_def get_def
        split: option.splits)

theorem missing_registry_errors_witness:
  "[''a.txt'' \<mapsto> File ''Books''] ''.catodb'' = None
   \<and> fst (registerFile [''a.txt'' \<mapsto> File ''Books''] ''a.txt'' [''Books''] False ''2023-07-01T00:00:00Z'')
       = Inl (Wrap ''failed to open .catodb for writing'' ErrNotExist)
   \<and> snd (registerFile [''a.txt'' \<mapsto> File ''Books''] ''a.txt'' [''Books''] False ''2023-07-01T00:00:00Z'')
         ''.catodb'' = None
   \<and> get (\<lambda>r. Inr (\<lambda>s. True)) [''a.txt'' \<mapsto> File ''Books''] ''a'' [] = Inl (Msg ''file does not exist'')"
  using missing_registry_errors [of "[''a.txt'' \<mapsto> File ''Books'']" "''a.txt''" "[''Books'']" False
        "''2023-07-01T00:00:00Z''" "\<lambda>r. Inr (\<lambda>s. True)" "''a''" "[]"]
  by simp

text \<open>
  Claim C1. \<^verbatim>\<open>registerFile\<close> has no check of the categories against a reference set.
  On the second call of the package's own test \<^verbatim>\<open>TestRegisterFile\<close> (the subject with
  the lines \<^verbatim>\<open>Books\<close> and \<^verbatim>\<open>Movies\<close>, its snapshot and the record of the first call
  in the registry, and the single unknown category \<^verbatim>\<open>NonExistent\<close>) it reports success
  and appends a second record, where the test expects the error ``some categories do
  not exist'' and no success.
\<close>

theorem registerFile_accepts_unknown_category:
  "registerFile
     [''test_register_file.txt'' \<mapsto> File (listing_text [''Books'', ''Movies'']),
      ''test_register_file.txt.copy'' \<mapsto> File (listing_text [''Books'', ''Movies'']),
      ''.catodb'' \<mapsto> File (listing_text [''test_register_file.txt|Books,Movies|2023-07-01T00:00:00Z''])]
     ''test_register_file.txt'' [''NonExistent''] False ''2023-07-01T00:00:01Z''
   = (Inr True,
      [''test_register_file.txt'' \<mapsto> File (listing_text [''Books'', ''Movies'']),
       ''test_register_file.txt.copy'' \<mapsto> File (listing_text [''Books'', ''Movies'']),
       ''.catodb'' \<mapsto> File (listing_text [''test_register_file.txt|Books,Movies|2023-07-01T00:00:00Z'',
                                 ''test_register_file.txt|NonExistent|2023-07-01T00:00:01Z''])])"
  by (simp add: registerFile_def checkFileExists_def os_Open_def os_OpenFile_def WriteString_def
      format_def listing_text_def)

section \<open>Query\<close>

text \<open>
  The loop of \<^verbatim>\<open>get\<close> appends, in order, the first field of every selected line.
\<close>

lemma get_loop_filter:
  "get_loop re required ls matches
     = matches @ map (\<lambda>l. Split l (CHR ''|'') ! 0) (filter (selected re required) ls)"
  by (induction ls arbitrary: matches)
     (simp_all add: Let_def selected_def containsAll_iff not_less)

text \<open>
  When the scanner stops with an error \<^verbatim>\<open>get\<close> returns that error.
\<close>

lemma get_scan_error:
  "fs ''.catodb'' = Some (File c) \<Longrightarrow> scan_content c = (ls, Some err) \<Longrightarrow>
     Compile regex = Inr re \<Longrightarrow> get Compile fs regex required = Inl err"
  by (simp add: get_def checkFileExists_def os_Open_def Scanner_def read_all_def)

text \<open>
  Claim C7, as amended. When the registry is a regular file all of whose pieces between
  newlines are shorter than 65536 bytes and the pattern compiles, \<^verbatim>\<open>get\<close> returns the
  first field of exactly the lines (the pieces, one trailing carriage return dropped)
  that have at least three fields between bars, whose first field the pattern matches
  and among whose comma-separated second-field pieces every required category occurs;
  the paths come in the order of the lines, one for every such line, so duplicates stay.
  Lines with fewer than three fields are left out without an error. When a piece has
  65536 bytes or more, \<^verbatim>\<open>get\<close> fails with \<^verbatim>\<open>ErrTooLong\<close> and returns no path.
\<close>

theorem get_selects:
  "(fs ''.catodb'' = Some (File c) \<and> (\<forall>s \<in> set (raw_lines c). length s < MaxScanTokenSize)
      \<and> Compile regex = Inr re \<longrightarrow>
      get Compile fs regex required
        = Inr (map (\<lambda>l. Split l (CHR ''|'') ! 0)
                 (filter (selected re required) (map dropCR (raw_lines c)))))
   \<and> (fs ''.catodb'' = Some (File c) \<and> (\<exists>s \<in> set (raw_lines c). MaxScanTokenSize \<le> length s)
      \<and> Compile regex = Inr re \<longrightarrow>
      get Compile fs regex required = Inl ErrTooLong)"
proof -
  have A: "get Compile fs regex required
        = Inr (map (\<lambda>l. Split l (CHR ''|'') ! 0)
                 (filter (selected re required) (map dropCR (raw_lines c))))"
    if "fs ''.catodb'' = Some (File c)" and "\<forall>s \<in> set (raw_lines c). length s < MaxScanTokenSize"
      and "Compile regex = Inr re"
    using that(1,3) scan_content_short [OF that(2)]
    by (simp add: get_def checkFileExists_def os_Open_def Scanner_def read_all_def get_loop_filter)
  have C: "get Compile fs regex required = Inl ErrTooLong"
    if p: "fs ''.catodb'' = Some (File c)" and q: "\<exists>s \<in> set (raw_lines c). MaxScanTokenSize \<le> length s"
      and r: "Compile regex = Inr re"
  proof -
    obtain xs where "scan_content c = (xs, Some ErrTooLong)"
      using scan_content_long [OF q] by (cases "scan_content c") auto
    with p show ?thesis using r by (rule get_scan_error)
  qed
  from A C show ?thesis by blast
qed

theorem get_selects_witness:
  "get (\<lambda>r. Inr (\<lambda>s. drop (length s - length r) s = r))
        [''.catodb'' \<mapsto> File (listing_text [''/path/to/file1|Books,Movies|2023-07-01T00:00:00Z'',
                               ''/path/to/file2|Music,Games|2023-07-01T00:00:00Z'', ''stray line''])]
        ''file1'' [''Books'']
     = Inr [''/path/to/file1'']
   \<and> get (\<lambda>r. Inr (\<lambda>s. True)) [''.catodb'' \<mapsto> File (replicate 65536 (CHR ''a''))] ''file'' []
     = Inl ErrTooLong"
proof -
  let ?ls = "[''/path/to/file1|Books,Movies|2023-07-01T00:00:00Z'',
              ''/path/to/file2|Music,Games|2023-07-01T00:00:00Z'', ''stray line'']"
  let ?big = "replicate 65536 (CHR ''a'')"
  have r: "raw_lines (listing_text ?ls) = ?ls"
    by (rule raw_lines_listing_text) (simp add: nl_def)
  have a: "get (\<lambda>r. Inr (\<lambda>s. drop (length s - length r) s = r))
        [''.catodb'' \<mapsto> File (listing_text ?ls)] ''file1'' [''Books''] = Inr [''/path/to/file1'']"
    using get_selects [where fs = "[''.catodb'' \<mapsto> File (listing_text ?ls)]" and c = "listing_text ?ls"
        and Compile = "\<lambda>r. Inr (\<lambda>s. drop (length s - length r) s = r)" and regex = "''file1''"
        and re = "\<lambda>s. drop (length s - length ''file1'') s = ''file1''" and required = "[''Books'']"]
    by (simp add: r dropCR_def cr_def MaxScanTokenSize_def selected_def)
  have b: "get (\<lambda>r. Inr (\<lambda>s. True)) [''.catodb'' \<mapsto> File ?big] ''file'' [] = Inl ErrTooLong"
    using get_selects [where fs = "[''.catodb'' \<mapsto> File ?big]" and c = ?big
        and Compile = "\<lambda>r. Inr (\<lambda>s. True)" and regex = "''file''" and re = "\<lambda>s. True" and required = "[]"]
    by (simp add: long_line_raw MaxScanTokenSize_def)
  from a b show ?thesis by (simp only: simp_thms)
qed

text \<open>
  Claim C7 as stated fails: for the registry content that is one line of 65536 bytes,
  and a pattern that compiles, \<^verbatim>\<open>get\<close> returns \<^verbatim>\<open>ErrTooLong\<close> and no list of paths.
\<close>

theorem get_selects_counterexample:
  "get (\<lambda>r. Inr (\<lambda>s. True)) [''.catodb'' \<mapsto> File (replicate 65536 (CHR ''a''))] ''file'' []
     = Inl ErrTooLong"
  by (rule get_scan_error [OF _ long_line_scan]) simp_all

section \<open>Bulk registration\<close>











end
